theory Spec2Isabelle
  imports Complex_Main
begin

section \<open>Python values\<close>

text \<open>
  A Python \<open>str\<close> is a sequence of Unicode code points, so it is modelled as a list of
  natural numbers. \<open>u\<close> turns an ASCII literal of the source into such a sequence.
\<close>

type_synonym pystr = "nat list"

definition u :: "string \<Rightarrow> pystr" where
  "u s = map of_char s"

text \<open>
  A \<open>float\<close> is an IEEE 754 double: a finite value (given by the rational number it
  denotes, \<open>Finite 0\<close> being \<open>+0.0\<close>), negative zero, an infinity or a NaN.
\<close>

datatype pyfloat = Finite rat | NegZero | PosInf | NegInf | NaN

text \<open>
  The scalar values a provider payload holds. Container-valued entries of a payload are
  never read by the program and are left out of the value type.
\<close>

datatype pyval = PNone | PBool bool | PInt int | PFloat pyfloat | PStr pystr

type_synonym pydict = "(pystr \<times> pyval) list"

text \<open>Exceptions (subclasses of \<open>Exception\<close>), each with the text \<open>str(e)\<close> gives.\<close>

datatype exn = ValueError pystr | TypeError pystr | OverflowError pystr | ExternalError pystr

fun exn_str :: "exn \<Rightarrow> pystr" where
  "exn_str (ValueError m) = m"
| "exn_str (TypeError m) = m"
| "exn_str (OverflowError m) = m"
| "exn_str (ExternalError m) = m"

text \<open>\<open>d.get(k, default)\<close>; \<open>d.get(k)\<close> is \<open>dict_get d k PNone\<close>.\<close>

definition dict_get :: "pydict \<Rightarrow> pystr \<Rightarrow> pyval \<Rightarrow> pyval" where
  "dict_get d k dflt = (case map_of d k of Some v \<Rightarrow> v | None \<Rightarrow> dflt)"

text \<open>Truth value testing, as \<open>if x\<close> and \<open>not x\<close> do it.\<close>

fun truthy :: "pyval \<Rightarrow> bool" where
  "truthy PNone = False"
| "truthy (PBool b) = b"
| "truthy (PInt n) = (n \<noteq> 0)"
| "truthy (PFloat f) = (f \<noteq> Finite 0 \<and> f \<noteq> NegZero)"
| "truthy (PStr s) = (s \<noteq> [])"

section \<open>Formatting integers\<close>

text \<open>The decimal digits of a non-negative integer, most significant first.\<close>

function dec :: "int \<Rightarrow> pystr" where
  "dec n = (if n < 10 then [nat (48 + n)] else dec (n div 10) @ [nat (48 + n mod 10)])"
  by pat_completeness auto
termination
  by (relation "measure nat") auto

declare dec.simps [simp del]

definition str_int :: "int \<Rightarrow> pystr" where
  "str_int n = (if n < 0 then 45 # dec (- n) else dec n)"

text \<open>
  The \<open>,\<close> option of the format mini-language: a comma (code point 44) after every third
  digit, counted from the right. \<open>commas\<close> works on the reversed digit string.
\<close>

fun commas :: "pystr \<Rightarrow> pystr" where
  "commas (a # b # c # d # ds) = a # b # c # 44 # commas (d # ds)"
| "commas ds = ds"

definition format_comma_int :: "int \<Rightarrow> pystr" where
  "format_comma_int n =
     (if n < 0 then [45] else []) @ rev (commas (rev (dec \<bar>n\<bar>)))"

section \<open>Floating point\<close>

definition pow2 :: "int \<Rightarrow> rat" where
  "pow2 e = (if 0 \<le> e then 2 ^ nat e else 1 / 2 ^ nat (- e))"

function bit_length :: "int \<Rightarrow> int" where
  "bit_length n = (if n \<le> 0 then 0 else 1 + bit_length (n div 2))"
  by pat_completeness auto
termination
  by (relation "measure nat") auto

declare bit_length.simps [simp del]

text \<open>\<open>ilog2 x\<close> is the integer \<open>k\<close> with \<open>2^k \<le> x < 2^(k+1)\<close>, for a positive \<open>x\<close>.\<close>

definition ilog2 :: "rat \<Rightarrow> int" where
  "ilog2 x =
     (let (p, q) = quotient_of x;
          k = bit_length p - bit_length q
      in if pow2 k \<le> x then k else k - 1)"

definition round_half_even :: "rat \<Rightarrow> int" where
  "round_half_even x =
     (let f = \<lfloor>x\<rfloor>; d = x - of_int f
      in if d < 1 / 2 then f else if 1 / 2 < d then f + 1
         else if even f then f else f + 1)"

text \<open>
  Rounding of a magnitude \<open>x \<ge> 0\<close> with sign \<open>neg\<close> to the nearest double, ties to even:
  53 significant bits, the least exponent that of the subnormals, and overflow to an
  infinity from \<open>2^1024\<close> on (a positive \<open>m\<close> has \<open>2^1024 \<le> m * 2^e\<close> exactly when
  \<open>1024 < bit_length m + e\<close>).
\<close>

definition round_double :: "bool \<Rightarrow> rat \<Rightarrow> pyfloat" where
  "round_double neg x =
     (if x = 0 then (if neg then NegZero else Finite 0)
      else
        let e = max (ilog2 x - 52) (- 1074);
            m = round_half_even (x / pow2 e);
            y = of_int m * pow2 e
        in if 1024 < bit_length m + e then (if neg then NegInf else PosInf)
           else if m = 0 then (if neg then NegZero else Finite 0)
           else Finite (if neg then - y else y))"

definition float_of_rat :: "rat \<Rightarrow> pyfloat" where
  "float_of_rat r = round_double (r < 0) \<bar>r\<bar>"

fun float_neg :: "pyfloat \<Rightarrow> bool" where
  "float_neg (Finite r) = (r < 0)"
| "float_neg NegZero = True"
| "float_neg NegInf = True"
| "float_neg _ = False"

fun float_abs :: "pyfloat \<Rightarrow> rat" where
  "float_abs (Finite r) = \<bar>r\<bar>"
| "float_abs _ = 0"

definition float_is_inf :: "pyfloat \<Rightarrow> bool" where
  "float_is_inf f = (f = PosInf \<or> f = NegInf)"

definition float_is_zero :: "pyfloat \<Rightarrow> bool" where
  "float_is_zero f = (f = Finite 0 \<or> f = NegZero)"

definition float_mul :: "pyfloat \<Rightarrow> pyfloat \<Rightarrow> pyfloat" where
  "float_mul a b =
     (if a = NaN \<or> b = NaN then NaN
      else if (float_is_inf a \<and> float_is_zero b) \<or> (float_is_zero a \<and> float_is_inf b)
        then NaN
      else if float_is_inf a \<or> float_is_inf b
        then (if float_neg a \<noteq> float_neg b then NegInf else PosInf)
      else round_double (float_neg a \<noteq> float_neg b) (float_abs a * float_abs b))"

text \<open>\<open>float(n)\<close> for an \<open>int\<close>: the nearest double, or OverflowError.\<close>

definition float_of_int :: "int \<Rightarrow> exn + pyfloat" where
  "float_of_int n =
     (let f = float_of_rat (of_int n)
      in if float_is_inf f then Inl (OverflowError (u ''int too large to convert to float''))
         else Inr f)"

text \<open>The presentation type \<open>.2f\<close>: the exact value of the double, rounded to two decimals.\<close>

definition fixed2 :: "pyfloat \<Rightarrow> pystr" where
  "fixed2 f =
     (case f of
        NaN \<Rightarrow> u ''nan''
      | PosInf \<Rightarrow> u ''inf''
      | NegInf \<Rightarrow> u ''-inf''
      | NegZero \<Rightarrow> u ''-0.00''
      | Finite r \<Rightarrow>
          (let n = round_half_even (\<bar>r\<bar> * 100)
           in (if r < 0 then [45] else []) @ dec (n div 100) @ [46]
              @ [nat (48 + n mod 100 div 10), nat (48 + n mod 10)]))"

section \<open>Operators and format specifications\<close>

text \<open>The expression \<open>v * 100\<close>.\<close>

fun py_times_100 :: "pyval \<Rightarrow> exn + pyval" where
  "py_times_100 (PInt n) = Inr (PInt (n * 100))"
| "py_times_100 (PBool b) = Inr (PInt (if b then 100 else 0))"
| "py_times_100 (PFloat f) = Inr (PFloat (float_mul f (Finite 100)))"
| "py_times_100 (PStr s) = Inr (PStr (concat (replicate 100 s)))"
| "py_times_100 PNone =
     Inl (TypeError (u ''unsupported operand type(s) for *: '' @ [39] @ u ''NoneType''
        @ [39] @ u '' and '' @ [39] @ u ''int'' @ [39]))"

text \<open>The replacement field \<open>{x:.2f}\<close>.\<close>

fun format_2f :: "pyval \<Rightarrow> exn + pystr" where
  "format_2f (PFloat f) = Inr (fixed2 f)"
| "format_2f (PInt n) =
     (case float_of_int n of Inl e \<Rightarrow> Inl e | Inr f \<Rightarrow> Inr (fixed2 f))"
| "format_2f (PBool b) =
     (case float_of_int (if b then 1 else 0) of Inl e \<Rightarrow> Inl e | Inr f \<Rightarrow> Inr (fixed2 f))"
| "format_2f (PStr s) =
     Inl (ValueError (u ''Unknown format code '' @ [39] @ u ''f'' @ [39]
        @ u '' for object of type '' @ [39] @ u ''str'' @ [39]))"
| "format_2f PNone =
     Inl (TypeError (u ''unsupported format string passed to NoneType.__format__''))"

text \<open>
  The replacement field \<open>{x:,}\<close>. What it prints for a float follows the float's
  \<open>repr\<close>; that text is a parameter \<open>fc\<close> of the model.
\<close>

fun format_comma :: "(pyfloat \<Rightarrow> pystr) \<Rightarrow> pyval \<Rightarrow> exn + pystr" where
  "format_comma fc (PInt n) = Inr (format_comma_int n)"
| "format_comma fc (PBool b) = Inr (format_comma_int (if b then 1 else 0))"
| "format_comma fc (PFloat f) = Inr (fc f)"
| "format_comma fc (PStr s) =
     Inl (ValueError (u ''Cannot specify '' @ [39] @ u '','' @ [39] @ u '' with ''
        @ [39] @ u ''s'' @ [39] @ u ''.''))"
| "format_comma fc PNone =
     Inl (TypeError (u ''unsupported format string passed to NoneType.__format__''))"

text \<open>\<open>str(x)\<close>, as a replacement field \<open>{x}\<close> applies it; \<open>fs\<close> prints a float.\<close>

fun py_str :: "(pyfloat \<Rightarrow> pystr) \<Rightarrow> pyval \<Rightarrow> pystr" where
  "py_str fs PNone = u ''None''"
| "py_str fs (PBool b) = (if b then u ''True'' else u ''False'')"
| "py_str fs (PInt n) = str_int n"
| "py_str fs (PFloat f) = fs f"
| "py_str fs (PStr s) = s"

section \<open>String methods\<close>

text \<open>\<open>sub in s\<close> for strings: \<open>sub\<close> occurs in \<open>s\<close> as a contiguous run.\<close>

fun is_prefix :: "pystr \<Rightarrow> pystr \<Rightarrow> bool" where
  "is_prefix [] s = True"
| "is_prefix (a # as) [] = False"
| "is_prefix (a # as) (b # bs) = (a = b \<and> is_prefix as bs)"

fun py_in :: "pystr \<Rightarrow> pystr \<Rightarrow> bool" where
  "py_in sub [] = is_prefix sub []"
| "py_in sub (c # cs) = (is_prefix sub (c # cs) \<or> py_in sub cs)"

text \<open>
  \<open>s.split(sep)\<close> for a separator of one code point. \<open>split_first\<close> gives the first
  piece and the remaining ones, so the list of pieces is never empty.
\<close>

fun split_first :: "nat \<Rightarrow> pystr \<Rightarrow> pystr \<times> pystr list" where
  "split_first sep [] = ([], [])"
| "split_first sep (c # cs) =
     (let (l, ls) = split_first sep cs
      in if c = sep then ([], l # ls) else (c # l, ls))"

definition py_split :: "nat \<Rightarrow> pystr \<Rightarrow> pystr list" where
  "py_split sep s = (let (l, ls) = split_first sep s in l # ls)"

fun py_join :: "pystr \<Rightarrow> pystr list \<Rightarrow> pystr" where
  "py_join sep [] = []"
| "py_join sep [x] = x"
| "py_join sep (x # y # ys) = x @ sep @ py_join sep (y # ys)"

text \<open>The code points \<open>str.strip()\<close> removes: those for which \<open>str.isspace\<close> holds.\<close>

definition is_space :: "nat \<Rightarrow> bool" where
  "is_space c \<longleftrightarrow>
     (9 \<le> c \<and> c \<le> 13) \<or> (28 \<le> c \<and> c \<le> 32) \<or> c = 133 \<or> c = 160 \<or> c = 5760
     \<or> (8192 \<le> c \<and> c \<le> 8202) \<or> c = 8232 \<or> c = 8233 \<or> c = 8239 \<or> c = 8287
     \<or> c = 12288"

definition py_strip :: "pystr \<Rightarrow> pystr" where
  "py_strip s = rev (dropWhile is_space (rev (dropWhile is_space s)))"

section \<open>Data frames\<close>

text \<open>
  A pandas DataFrame, as far as the program looks at it: its column labels and its rows
  in index order.
\<close>

record dataframe =
  df_columns :: "pystr list"
  df_rows :: "pyval list list"

definition DataFrame_new :: dataframe where
  "DataFrame_new = \<lparr>df_columns = [], df_rows = []\<rparr>"

text \<open>\<open>df.empty\<close>: one of the two axes has length 0.\<close>

definition df_empty :: "dataframe \<Rightarrow> bool" where
  "df_empty d \<longleftrightarrow> df_columns d = [] \<or> df_rows d = []"

definition df_tail :: "nat \<Rightarrow> dataframe \<Rightarrow> dataframe" where
  "df_tail n d = d\<lparr>df_rows := drop (length (df_rows d) - n) (df_rows d)\<rparr>"

section \<open>The external services\<close>

text \<open>
  What \<open>yf.Ticker(ticker)\<close> gives: an object whose \<open>history\<close> call and whose \<open>info\<close> and
  \<open>recommendations\<close> properties each return a value or raise.
\<close>

record stock =
  history :: "pystr \<Rightarrow> exn + dataframe"
  info :: "exn + pydict"
  recommendations :: "exn + dataframe"

text \<open>
  The environment of one run: the market-data provider, the news search (the \<open>DDGS()\<close>
  constructor, giving the \<open>news(query, max_results)\<close> call), the text generation
  (\<open>generate_content(prompt, max_output_tokens)\<close> followed by \<open>response.text\<close>), and
  how the interpreter prints a float (\<open>str\<close> and the \<open>,\<close> format option).
\<close>

record env =
  yf_Ticker :: "pystr \<Rightarrow> exn + stock"
  DDGS :: "exn + (pystr \<Rightarrow> nat \<Rightarrow> exn + pydict list)"
  generate_content :: "pystr \<Rightarrow> nat \<Rightarrow> exn + pystr"
  float_str :: "pyfloat \<Rightarrow> pystr"
  float_comma :: "pyfloat \<Rightarrow> pystr"

section \<open>The stock snapshot\<close>

record basic_info =
  Company_Name :: pyval
  Sector :: pyval
  Industry :: pyval
  Market_Cap :: pystr

record current_price =
  Current :: pyval
  Week52_High :: pyval
  Week52_Low :: pyval

record financial_health =
  PE_Ratio :: pyval
  Dividend_Yield :: pystr
  ROE :: pystr

record snapshot =
  Basic_Info :: basic_info
  Current_Price :: current_price
  Financial_Health :: financial_health
  Recommendations :: dataframe
  Historical_Data :: dataframe
  News :: "pydict list"

text \<open>The calls of the user interface, in the order they are made.\<close>

datatype ui = Header pystr | Subheader pystr | Markdown pystr | Success pystr
  | Write pystr | Error pystr

section \<open>fetch_stock_data\<close>

definition NA :: pystr where
  "NA = u ''N/A''"

text \<open>The field \<open>f"${info.get('marketCap', 'N/A'):,}"\<close>.\<close>

definition market_cap_field :: "env \<Rightarrow> pydict \<Rightarrow> exn + pystr" where
  "market_cap_field E info_d =
     (case format_comma (float_comma E) (dict_get info_d (u ''marketCap'') (PStr NA)) of
        Inl e \<Rightarrow> Inl e
      | Inr s \<Rightarrow> Inr (36 # s))"

text \<open>
  The field \<open>f"{info.get(key, 'N/A')*100:.2f}%" if info.get(key) else 'N/A'\<close>, for the
  keys \<open>dividendYield\<close> and \<open>returnOnEquity\<close>.
\<close>

definition percent_field :: "pydict \<Rightarrow> pystr \<Rightarrow> exn + pystr" where
  "percent_field info_d key =
     (if truthy (dict_get info_d key PNone)
      then (case py_times_100 (dict_get info_d key (PStr NA)) of
              Inl e \<Rightarrow> Inl e
            | Inr x \<Rightarrow> (case format_2f x of Inl e \<Rightarrow> Inl e | Inr s \<Rightarrow> Inr (s @ [37])))
      else Inr NA)"

text \<open>
  The dictionary the function returns (lines 57 to 77). Its entries are evaluated in
  the order they are written, so the first field that raises decides the exception.
\<close>

definition build_snapshot ::
  "env \<Rightarrow> pydict \<Rightarrow> dataframe \<Rightarrow> dataframe \<Rightarrow> pydict list \<Rightarrow> exn + snapshot" where
  "build_snapshot E info_d recs hist_data ddg_news =
     (case market_cap_field E info_d of
        Inl e \<Rightarrow> Inl e
      | Inr mc \<Rightarrow>
     (case percent_field info_d (u ''dividendYield'') of
        Inl e \<Rightarrow> Inl e
      | Inr dy \<Rightarrow>
     (case percent_field info_d (u ''returnOnEquity'') of
        Inl e \<Rightarrow> Inl e
      | Inr roe \<Rightarrow>
         Inr \<lparr>Basic_Info =
                \<lparr>Company_Name = dict_get info_d (u ''longName'') (PStr NA),
                 Sector = dict_get info_d (u ''sector'') (PStr NA),
                 Industry = dict_get info_d (u ''industry'') (PStr NA),
                 Market_Cap = mc\<rparr>,
              Current_Price =
                \<lparr>Current = dict_get info_d (u ''currentPrice'') (PStr NA),
                 Week52_High = dict_get info_d (u ''fiftyTwoWeekHigh'') (PStr NA),
                 Week52_Low = dict_get info_d (u ''fiftyTwoWeekLow'') (PStr NA)\<rparr>,
              Financial_Health =
                \<lparr>PE_Ratio = dict_get info_d (u ''trailingPE'') (PStr NA),
                 Dividend_Yield = dy,
                 ROE = roe\<rparr>,
              Recommendations = (if \<not> df_empty recs then df_tail 5 recs else DataFrame_new),
              Historical_Data = hist_data,
              News = ddg_news\<rparr>)))"

text \<open>
  The part of the body after the info check (lines 47 to 77): \<open>Inl e\<close> is an exception
  that reaches the outer handler.
\<close>

definition aggregate :: "env \<Rightarrow> pystr \<Rightarrow> stock \<Rightarrow> dataframe \<Rightarrow> pydict \<Rightarrow> exn + snapshot" where
  "aggregate E ticker stk hist_data info_d =
     (let recs = (case recommendations stk of Inl e \<Rightarrow> DataFrame_new | Inr r \<Rightarrow> r)
      in case DDGS E of
           Inl e \<Rightarrow> Inl e
         | Inr news \<Rightarrow>
        (case news (py_str (float_str E) (dict_get info_d (u ''longName'') (PStr ticker))
                      @ u '' stock news'') 10 of
           Inl e \<Rightarrow> Inl e
         | Inr ddg_news \<Rightarrow> build_snapshot E info_d recs hist_data ddg_news))"

text \<open>
  The body of the outer \<open>try\<close> (lines 32 to 77). The result is the calls of \<open>st.error\<close>
  made and the value returned (\<open>None\<close> for Python's \<open>None\<close>).
\<close>

definition fetch_body :: "env \<Rightarrow> pystr \<Rightarrow> exn + (ui list \<times> snapshot option)" where
  "fetch_body E ticker =
     (case yf_Ticker E ticker of
        Inl e \<Rightarrow> Inl e
      | Inr stk \<Rightarrow>
     (case history stk (u ''1y'') of
        Inl e \<Rightarrow> Inl e
      | Inr hist_data \<Rightarrow>
     (case info stk of
        Inl e \<Rightarrow> Inr ([Error (u ''Error fetching stock info: '' @ exn_str e)], None)
      | Inr info_d \<Rightarrow>
          if info_d = [] then Inr ([Error (u ''No data found for ticker: '' @ ticker)], None)
          else (case aggregate E ticker stk hist_data info_d of
                  Inl e \<Rightarrow> Inl e
                | Inr snap \<Rightarrow> Inr ([], Some snap)))))"

definition fetch_stock_data :: "env \<Rightarrow> pystr \<Rightarrow> ui list \<times> snapshot option" where
  "fetch_stock_data E ticker =
     (case fetch_body E ticker of
        Inl e \<Rightarrow> ([Error (u ''Unexpected error fetching stock data: '' @ exn_str e)], None)
      | Inr r \<Rightarrow> r)"

section \<open>generate_gemini_analysis\<close>

definition marker :: pystr where
  "marker = [10060]"

definition news_summary :: "env \<Rightarrow> pydict list \<Rightarrow> pystr" where
  "news_summary E news =
     py_join [10]
       (map (\<lambda>article. u ''Title: '' @ py_str (float_str E) (dict_get article (u ''title'') (PStr NA)))
          (take 3 news))"

definition prompt :: "env \<Rightarrow> snapshot \<Rightarrow> pydict list \<Rightarrow> pystr" where
  "prompt E stock_data news =
     u ''Provide a concise stock analysis and decision recommendation based on the following information:''
     @ [10, 10] @ u ''Company Details:''
     @ [10] @ u ''- Name: '' @ py_str (float_str E) (Company_Name (Basic_Info stock_data))
     @ [10] @ u ''- Sector: '' @ py_str (float_str E) (Sector (Basic_Info stock_data))
     @ [10] @ u ''- Market Cap: '' @ Market_Cap (Basic_Info stock_data)
     @ [10, 10] @ u ''Financial Metrics:''
     @ [10] @ u ''- Current Price: '' @ py_str (float_str E) (Current (Current_Price stock_data))
     @ [10] @ u ''- P/E Ratio: '' @ py_str (float_str E) (PE_Ratio (Financial_Health stock_data))
     @ [10] @ u ''- Dividend Yield: '' @ Dividend_Yield (Financial_Health stock_data)
     @ [10, 10] @ u ''Recent News Headlines:''
     @ [10] @ news_summary E news
     @ [10, 10] @ u ''Analysis Requirements:''
     @ [10] @ u ''1. Provide a **clear decision recommendation** (Buy/Hold/Sell) in the first line.''
     @ [10] @ u ''2. Summarize the **key reasons** for the recommendation in 2-3 bullet points.''
     @ [10] @ u ''3. Keep the analysis concise and focused on actionable insights.''"

definition generate_gemini_analysis :: "env \<Rightarrow> snapshot \<Rightarrow> pydict list \<Rightarrow> pystr" where
  "generate_gemini_analysis E stock_data news =
     (case generate_content E (prompt E stock_data news) 500 of
        Inr text \<Rightarrow> text
      | Inl e \<Rightarrow> marker @ u '' Gemini Analysis Error: '' @ exn_str e)"

section \<open>display_ai_decision_support\<close>

definition article_markdown :: "env \<Rightarrow> pydict \<Rightarrow> pystr" where
  "article_markdown E article =
     [10] @ u ''            **''
     @ py_str (float_str E) (dict_get article (u ''title'') (PStr (u ''No Title''))) @ u ''**''
     @ [10] @ u ''            ''
     @ [10] @ u ''            Source: ''
     @ py_str (float_str E) (dict_get article (u ''source'') (PStr (u ''Unknown'')))
     @ [10] @ u ''            ''
     @ [10] @ u ''            [Read More]('' 
     @ py_str (float_str E) (dict_get article (u ''url'') (PStr (u ''#''))) @ u '')''
     @ [10] @ u ''            ''
     @ [10] @ u ''            ---''
     @ [10] @ u ''            ''"

text \<open>The branch taken when the marker is not in the analysis (lines 198 to 205).\<close>

definition render_verdict :: "pystr \<Rightarrow> ui list" where
  "render_verdict ai_analysis =
     (let lines = py_split 10 ai_analysis
      in [Markdown (u ''### Decision Recommendation''), Success (hd lines),
          Markdown (u ''### Key Reasons'')]
         @ map (\<lambda>line. Write (u ''- '' @ py_strip line))
             (filter (\<lambda>line. py_strip line \<noteq> []) (tl lines)))"

text \<open>The formatting of the output (lines 197 to 207).\<close>

definition render_analysis :: "pystr \<Rightarrow> ui list" where
  "render_analysis ai_analysis =
     (if \<not> py_in marker ai_analysis then render_verdict ai_analysis
      else [Error ai_analysis])"

definition display_ai_decision_support :: "env \<Rightarrow> snapshot \<Rightarrow> ui list" where
  "display_ai_decision_support E stock_data =
     [Header (u ''AI Decision Support: ''
        @ py_str (float_str E) (Company_Name (Basic_Info stock_data))),
      Subheader (u ''Recent News'')]
     @ map (\<lambda>article. Markdown (article_markdown E article)) (take 3 (News stock_data))
     @ [Subheader (u ''AI Agent Investment Insights'')]
     @ render_analysis (generate_gemini_analysis E stock_data (News stock_data))"

section \<open>Notions used in the statements\<close>

text \<open>The recommendations the aggregation goes on with (lines 48 to 51).\<close>

definition recs_of :: "stock \<Rightarrow> dataframe" where
  "recs_of stk = (case recommendations stk of Inl e \<Rightarrow> DataFrame_new | Inr r \<Rightarrow> r)"

text \<open>The query of the news search (line 55).\<close>

definition news_query :: "env \<Rightarrow> pystr \<Rightarrow> pydict \<Rightarrow> pystr" where
  "news_query E ticker info_d =
     py_str (float_str E) (dict_get info_d (u ''longName'') (PStr ticker)) @ u '' stock news''"

text \<open>What the outer handler reports and returns (lines 78 to 80).\<close>

definition unexpected :: "exn \<Rightarrow> ui list \<times> snapshot option" where
  "unexpected e = ([Error (u ''Unexpected error fetching stock data: '' @ exn_str e)], None)"

section \<open>Concrete runs\<close>

text \<open>
  An environment built from a provider, a news search and a text generation. No run
  below prints a float, so the two float printers are of no consequence in them.
\<close>

definition demo_env ::
  "(pystr \<Rightarrow> exn + stock) \<Rightarrow> (exn + (pystr \<Rightarrow> nat \<Rightarrow> exn + pydict list))
     \<Rightarrow> (pystr \<Rightarrow> nat \<Rightarrow> exn + pystr) \<Rightarrow> env" where
  "demo_env provider search gen =
     \<lparr>yf_Ticker = provider, DDGS = search, generate_content = gen,
      float_str = (\<lambda>f. []), float_comma = (\<lambda>f. [])\<rparr>"

definition demo_history :: dataframe where
  "demo_history = \<lparr>df_columns = [u ''Close''], df_rows = [[PInt 10], [PInt 11]]\<rparr>"

definition demo_stock :: "exn + pydict \<Rightarrow> exn + dataframe \<Rightarrow> stock" where
  "demo_stock i r = \<lparr>history = (\<lambda>period. Inr demo_history), info = i, recommendations = r\<rparr>"

definition no_news :: "exn + (pystr \<Rightarrow> nat \<Rightarrow> exn + pydict list)" where
  "no_news = Inr (\<lambda>query max_results. Inr [])"

definition says_hold :: "pystr \<Rightarrow> nat \<Rightarrow> exn + pystr" where
  "says_hold p max_output_tokens = Inr (u ''Hold'')"

definition acme_info :: pydict where
  "acme_info =
     [(u ''longName'', PStr (u ''Acme Corp'')), (u ''sector'', PStr (u ''Technology'')),
      (u ''marketCap'', PInt 123456789), (u ''currentPrice'', PInt 50)]"

definition acme_stock :: stock where
  "acme_stock = demo_stock (Inr acme_info) (Inl (ExternalError (u ''no recommendations'')))"

definition acme_env :: env where
  "acme_env = demo_env (\<lambda>ticker. Inr acme_stock) no_news says_hold"

definition acme_snapshot :: snapshot where
  "acme_snapshot =
     \<lparr>Basic_Info =
        \<lparr>Company_Name = PStr (u ''Acme Corp''), Sector = PStr (u ''Technology''),
         Industry = PStr (u ''N/A''), Market_Cap = u ''$123,456,789''\<rparr>,
      Current_Price =
        \<lparr>Current = PInt 50, Week52_High = PStr (u ''N/A''), Week52_Low = PStr (u ''N/A'')\<rparr>,
      Financial_Health =
        \<lparr>PE_Ratio = PStr (u ''N/A''), Dividend_Yield = u ''N/A'', ROE = u ''N/A''\<rparr>,
      Recommendations = \<lparr>df_columns = [], df_rows = []\<rparr>,
      Historical_Data = demo_history,
      News = []\<rparr>"

definition zero_info :: pydict where
  "zero_info =
     [(u ''longName'', PStr (u ''Zero Yield Inc'')), (u ''marketCap'', PInt 5000),
      (u ''dividendYield'', PFloat (Finite 0)), (u ''returnOnEquity'', PFloat (Finite 0))]"

definition zero_stock :: stock where
  "zero_stock = demo_stock (Inr zero_info) (Inr DataFrame_new)"

definition zero_env :: env where
  "zero_env = demo_env (\<lambda>ticker. Inr zero_stock) no_news says_hold"

definition zero_snapshot :: snapshot where
  "zero_snapshot =
     \<lparr>Basic_Info =
        \<lparr>Company_Name = PStr (u ''Zero Yield Inc''), Sector = PStr (u ''N/A''),
         Industry = PStr (u ''N/A''), Market_Cap = u ''$5,000''\<rparr>,
      Current_Price =
        \<lparr>Current = PStr (u ''N/A''), Week52_High = PStr (u ''N/A''),
         Week52_Low = PStr (u ''N/A'')\<rparr>,
      Financial_Health =
        \<lparr>PE_Ratio = PStr (u ''N/A''), Dividend_Yield = u ''N/A'', ROE = u ''N/A''\<rparr>,
      Recommendations = \<lparr>df_columns = [], df_rows = []\<rparr>,
      Historical_Data = demo_history,
      News = []\<rparr>"

definition yield_info :: pydict where
  "yield_info =
     [(u ''longName'', PStr (u ''Yield Co'')), (u ''marketCap'', PInt 5000),
      (u ''dividendYield'', PFloat (float_of_rat (123 / 10000))),
      (u ''returnOnEquity'', PInt 2)]"

definition yield_stock :: stock where
  "yield_stock = demo_stock (Inr yield_info) (Inr DataFrame_new)"

definition yield_env :: env where
  "yield_env = demo_env (\<lambda>ticker. Inr yield_stock) no_news says_hold"

definition yield_snapshot :: snapshot where
  "yield_snapshot =
     \<lparr>Basic_Info =
        \<lparr>Company_Name = PStr (u ''Yield Co''), Sector = PStr (u ''N/A''),
         Industry = PStr (u ''N/A''), Market_Cap = u ''$5,000''\<rparr>,
      Current_Price =
        \<lparr>Current = PStr (u ''N/A''), Week52_High = PStr (u ''N/A''),
         Week52_Low = PStr (u ''N/A'')\<rparr>,
      Financial_Health =
        \<lparr>PE_Ratio = PStr (u ''N/A''), Dividend_Yield = u ''1.23%'', ROE = u ''200.00%''\<rparr>,
      Recommendations = \<lparr>df_columns = [], df_rows = []\<rparr>,
      Historical_Data = demo_history,
      News = []\<rparr>"

definition eight_rows :: dataframe where
  "eight_rows =
     \<lparr>df_columns = [u ''period'', u ''buy''],
      df_rows = [[PStr (u ''-7m''), PInt 1], [PStr (u ''-6m''), PInt 2], [PStr (u ''-5m''), PInt 3],
                 [PStr (u ''-4m''), PInt 4], [PStr (u ''-3m''), PInt 5], [PStr (u ''-2m''), PInt 6],
                 [PStr (u ''-1m''), PInt 7], [PStr (u ''0m''), PInt 8]]\<rparr>"

definition three_rows :: dataframe where
  "three_rows =
     \<lparr>df_columns = [u ''period'', u ''buy''],
      df_rows = [[PStr (u ''-2m''), PInt 6], [PStr (u ''-1m''), PInt 7], [PStr (u ''0m''), PInt 8]]\<rparr>"

definition rated_stock :: "dataframe \<Rightarrow> stock" where
  "rated_stock r = demo_stock (Inr acme_info) (Inr r)"

definition rated_env :: "dataframe \<Rightarrow> env" where
  "rated_env r = demo_env (\<lambda>ticker. Inr (rated_stock r)) no_news says_hold"

definition search_down :: "exn + (pystr \<Rightarrow> nat \<Rightarrow> exn + pydict list)" where
  "search_down = Inr (\<lambda>query max_results. Inl (ExternalError (u ''search unavailable'')))"

definition newsless_env :: env where
  "newsless_env = demo_env (\<lambda>ticker. Inr acme_stock) search_down says_hold"

definition down_stock :: stock where
  "down_stock =
     \<lparr>history = (\<lambda>period. Inl (ExternalError (u ''history unavailable''))),
      info = Inl (ExternalError (u ''info unavailable'')),
      recommendations = Inl (ExternalError (u ''no recommendations''))\<rparr>"

definition down_env :: env where
  "down_env = demo_env (\<lambda>ticker. Inr down_stock) no_news says_hold"

definition info_down_stock :: stock where
  "info_down_stock =
     demo_stock (Inl (ExternalError (u ''info unavailable''))) (Inr DataFrame_new)"

definition info_down_env :: env where
  "info_down_env = demo_env (\<lambda>ticker. Inr info_down_stock) no_news says_hold"

definition unknown_stock :: stock where
  "unknown_stock = demo_stock (Inr []) (Inr DataFrame_new)"

definition unknown_env :: env where
  "unknown_env = demo_env (\<lambda>ticker. Inr unknown_stock) no_news says_hold"

definition index_info :: pydict where
  "index_info = [(u ''longName'', PStr (u ''Broad Index'')), (u ''currentPrice'', PInt 4000)]"

definition index_stock :: stock where
  "index_stock = demo_stock (Inr index_info) (Inr DataFrame_new)"

definition index_env :: env where
  "index_env = demo_env (\<lambda>ticker. Inr index_stock) no_news says_hold"


definition quota_exceeded :: "pystr \<Rightarrow> nat \<Rightarrow> exn + pystr" where
  "quota_exceeded p max_output_tokens = Inl (ExternalError (u ''quota exceeded''))"

definition mute_env :: env where
  "mute_env = demo_env (\<lambda>ticker. Inr acme_stock) no_news quota_exceeded"

section \<open>Decimal digits and digit grouping\<close>

lemma dec_digits: "0 \<le> n \<Longrightarrow> c \<in> set (dec n) \<Longrightarrow> 48 \<le> c \<and> c \<le> 57"
proof (induction n arbitrary: c rule: dec.induct)
  case (1 n)
  show ?case
  proof (cases "n < 10")
    case True
    with "1.prems" show ?thesis
      by (subst (asm) dec.simps) auto
  next
    case False
    with "1.prems"(2) have "c \<in> set (dec (n div 10)) \<or> c = nat (48 + n mod 10)"
      by (subst (asm) dec.simps) auto
    then show ?thesis
    proof
      assume "c \<in> set (dec (n div 10))"
      moreover have "0 \<le> n div 10" using "1.prems"(1) by simp
      ultimately show ?thesis using "1.IH"[OF False] by blast
    next
      assume "c = nat (48 + n mod 10)"
      moreover have "0 \<le> n mod 10" "n mod 10 < 10" by simp_all
      ultimately show ?thesis by linarith
    qed
  qed
qed

lemma dec_no_comma: "0 \<le> n \<Longrightarrow> 44 \<notin> set (dec n)"
  using dec_digits[of n 44] by auto

lemma dec_value: "0 \<le> n \<Longrightarrow> foldl (\<lambda>a c. 10 * a + (int c - 48)) 0 (dec n) = n"
proof (induction n rule: dec.induct)
  case (1 n)
  show ?case
  proof (cases "n < 10")
    case True
    with "1.prems" show ?thesis by (subst dec.simps) simp
  next
    case False
    have "0 \<le> n div 10" using "1.prems" by simp
    with "1.IH"[OF False] have ih: "foldl (\<lambda>a c. 10 * a + (int c - 48)) 0 (dec (n div 10)) = n div 10" .
    have "0 \<le> n mod 10" by simp
    with False ih show ?thesis by (subst dec.simps) simp
  qed
qed

lemma commas_filter: "44 \<notin> set ds \<Longrightarrow> filter (\<lambda>c. c \<noteq> 44) (commas ds) = ds"
  by (induction ds rule: commas.induct) auto

lemma commas_nth:
  "44 \<notin> set ds \<Longrightarrow> i < length (commas ds) \<Longrightarrow> (commas ds ! i = 44) = (i mod 4 = 3)"
proof (induction ds arbitrary: i rule: commas.induct)
  case (1 a b c d ds)
  consider "i = 0" | "i = 1" | "i = 2" | "i = 3" | j where "i = j + 4"
    by atomize_elim arith
  then show ?case
  proof cases
    case 5
    with "1.prems" have "j < length (commas (d # ds))" by simp
    moreover have "44 \<notin> set (d # ds)" using "1.prems" by simp
    ultimately have "(commas (d # ds) ! j = 44) = (j mod 4 = 3)" using "1.IH" by blast
    with 5 show ?thesis by (simp add: nth_Cons')
  qed (use "1.prems" in auto)
qed (auto simp: nth_Cons' split: if_splits)

lemma format_comma_int_digits:
  "filter (\<lambda>c. c \<noteq> 44) (format_comma_int n) = str_int n"
proof -
  have "44 \<notin> set (rev (dec \<bar>n\<bar>))" using dec_no_comma[of "\<bar>n\<bar>"] by simp
  then have "filter (\<lambda>c. c \<noteq> 44) (commas (rev (dec \<bar>n\<bar>))) = rev (dec \<bar>n\<bar>)"
    by (rule commas_filter)
  then have "filter (\<lambda>c. c \<noteq> 44) (rev (commas (rev (dec \<bar>n\<bar>)))) = dec \<bar>n\<bar>"
    by (simp add: rev_filter[symmetric])
  then show ?thesis by (auto simp: format_comma_int_def str_int_def abs_if)
qed

lemma format_comma_int_groups:
  assumes "0 \<le> n" "i < length (format_comma_int n)"
  shows "(rev (format_comma_int n) ! i = 44) = (i mod 4 = 3)"
proof -
  have "44 \<notin> set (rev (dec n))" using dec_no_comma[OF assms(1)] by simp
  moreover have "format_comma_int n = rev (commas (rev (dec n)))"
    using assms(1) by (simp add: format_comma_int_def)
  ultimately show ?thesis using assms(2) commas_nth by simp
qed

section \<open>Doubles\<close>

text \<open>
  The literals \<open>0.1\<close> and \<open>0.0123\<close> as doubles, and the product \<open>0.0123 * 100\<close>.
\<close>

lemma float_of_rat_tenth:
  "float_of_rat (1 / 10) = Finite (3602879701896397 / 36028797018963968)"
  by code_simp

lemma float_of_rat_0_0123:
  "float_of_rat (123 / 10000) = Finite (7090467253332109 / 576460752303423488)
   \<and> float_mul (float_of_rat (123 / 10000)) (Finite 100)
       = Finite (2769713770832855 / 2251799813685248)"
  by code_simp

section \<open>The shape of a successful fetch\<close>

lemma fetch_snapshotD:
  assumes "fetch_stock_data E ticker = (errs, Some snap)"
  shows "\<exists>stk h d news ddg. yf_Ticker E ticker = Inr stk \<and> history stk (u ''1y'') = Inr h
     \<and> info stk = Inr d \<and> d \<noteq> [] \<and> DDGS E = Inr news
     \<and> news (news_query E ticker d) 10 = Inr ddg
     \<and> build_snapshot E d (recs_of stk) h ddg = Inr snap \<and> errs = []"
  using assms
  unfolding fetch_stock_data_def fetch_body_def aggregate_def recs_of_def news_query_def Let_def
  by (auto split: sum.splits if_splits)

lemma build_snapshotD:
  assumes "build_snapshot E d recs h ddg = Inr snap"
  shows "market_cap_field E d = Inr (Market_Cap (Basic_Info snap))"
    and "percent_field d (u ''dividendYield'') = Inr (Dividend_Yield (Financial_Health snap))"
    and "percent_field d (u ''returnOnEquity'') = Inr (ROE (Financial_Health snap))"
    and "Recommendations snap = (if \<not> df_empty recs then df_tail 5 recs else DataFrame_new)"
    and "Historical_Data snap = h" and "News snap = ddg"
  using assms unfolding build_snapshot_def
  by (auto split: sum.splits)

lemma market_cap_field_int:
  "map_of d (u ''marketCap'') = Some (PInt n) \<Longrightarrow> market_cap_field E d = Inr (36 # format_comma_int n)"
  by (simp add: market_cap_field_def dict_get_def)

section \<open>Market capitalisation\<close>

text \<open>
  Claim C7. When fetch returns a snapshot for an info payload whose \<open>marketCap\<close> is the
  integer \<open>n\<close>, the Market Cap field is a dollar sign followed by the digits of \<open>n\<close>
  with thousands separators: taking the commas out leaves \<open>str(n)\<close>, and for \<open>n \<ge> 0\<close>
  the commas are exactly at every fourth position counted from the right. The raw value
  123456789 gives \<open>$123,456,789\<close>.
\<close>

theorem market_cap_thousands_separated:
  assumes "fetch_stock_data E ticker = (errs, Some snap)"
    and "yf_Ticker E ticker = Inr stk" and "info stk = Inr info_d"
    and "map_of info_d (u ''marketCap'') = Some (PInt n)"
  shows "Market_Cap (Basic_Info snap) = 36 # format_comma_int n
    \<and> filter (\<lambda>c. c \<noteq> 44) (format_comma_int n) = str_int n
    \<and> (0 \<le> n \<longrightarrow> (\<forall>i < length (format_comma_int n).
          (rev (format_comma_int n) ! i = 44) = (i mod 4 = 3)))
    \<and> 36 # format_comma_int 123456789 = u ''$123,456,789''"
proof -
  from fetch_snapshotD[OF assms(1)] assms(2,3)
  obtain recs h ddg where "build_snapshot E info_d recs h ddg = Inr snap" by auto
  from build_snapshotD(1)[OF this] market_cap_field_int[OF assms(4)]
  have "Market_Cap (Basic_Info snap) = 36 # format_comma_int n" by simp
  moreover have "36 # format_comma_int 123456789 = u ''$123,456,789''" by code_simp
  ultimately show ?thesis
    using format_comma_int_digits format_comma_int_groups by blast
qed

theorem market_cap_thousands_separated_acme:
  "fetch_stock_data acme_env (u ''ACME'') = ([], Some acme_snapshot)
   \<and> Market_Cap (Basic_Info acme_snapshot) = 36 # format_comma_int 123456789
   \<and> filter (\<lambda>c. c \<noteq> 44) (format_comma_int 123456789) = str_int 123456789
   \<and> rev (format_comma_int 123456789) ! 3 = 44
   \<and> rev (format_comma_int 123456789) ! 4 \<noteq> 44
   \<and> 36 # format_comma_int 123456789 = u ''$123,456,789''"
proof -
  have l: "length (format_comma_int 123456789) = 11"
    by code_simp
  have f: "fetch_stock_data acme_env (u ''ACME'') = ([], Some acme_snapshot)"
    by code_simp
  have t: "yf_Ticker acme_env (u ''ACME'') = Inr acme_stock"
    by (simp add: acme_env_def demo_env_def)
  have i: "info acme_stock = Inr acme_info"
    by (simp add: acme_stock_def demo_stock_def)
  have m: "map_of acme_info (u ''marketCap'') = Some (PInt 123456789)"
    by code_simp
  from market_cap_thousands_separated[OF f t i m] f l show ?thesis
    by simp
qed

section \<open>Percentage fields\<close>

lemma percent_field_falsy:
  "\<not> truthy (dict_get d key PNone) \<Longrightarrow> percent_field d key = Inr (u ''N/A'')"
  by (simp add: percent_field_def NA_def)

lemma percent_field_float:
  "map_of d key = Some (PFloat f) \<Longrightarrow> truthy (PFloat f) \<Longrightarrow>
     percent_field d key = Inr (fixed2 (float_mul f (Finite 100)) @ [37])"
  by (simp add: percent_field_def dict_get_def)

lemma percent_field_int:
  "map_of d key = Some (PInt n) \<Longrightarrow> n \<noteq> 0 \<Longrightarrow>
     percent_field d key =
       (case float_of_int (n * 100) of Inl e \<Rightarrow> Inl e | Inr f \<Rightarrow> Inr (fixed2 f @ [37]))"
  by (simp add: percent_field_def dict_get_def split: sum.splits)

lemma fetch_percent_fields:
  assumes "fetch_stock_data E ticker = (errs, Some snap)"
    and "yf_Ticker E ticker = Inr stk" and "info stk = Inr info_d"
  shows "percent_field info_d (u ''dividendYield'') = Inr (Dividend_Yield (Financial_Health snap))"
    and "percent_field info_d (u ''returnOnEquity'') = Inr (ROE (Financial_Health snap))"
proof -
  from fetch_snapshotD[OF assms(1)] assms(2,3)
  obtain recs h ddg where b: "build_snapshot E info_d recs h ddg = Inr snap" by auto
  show "percent_field info_d (u ''dividendYield'') = Inr (Dividend_Yield (Financial_Health snap))"
    using build_snapshotD(2)[OF b] .
  show "percent_field info_d (u ''returnOnEquity'') = Inr (ROE (Financial_Health snap))"
    using build_snapshotD(3)[OF b] .
qed

lemma round_half_even_close: "\<bar>of_int (round_half_even x) - x\<bar> \<le> 1 / 2"
  unfolding round_half_even_def Let_def
  by (auto simp: abs_if) linarith+

text \<open>
  Claim C10. When the info payload holds the dividend yield (or the return on equity)
  with the exact value \<open>0.0\<close>, a snapshot that fetch returns shows the field as \<open>N/A\<close>
  and not as \<open>0.00%\<close>, the text the formatting of \<open>0.0 * 100\<close> would give: presence is
  decided by the truth value of the entry.
\<close>

theorem zero_yield_not_available:
  assumes "fetch_stock_data E ticker = (errs, Some snap)"
    and "yf_Ticker E ticker = Inr stk" and "info stk = Inr info_d"
  shows "(map_of info_d (u ''dividendYield'') = Some (PFloat (Finite 0))
            \<longrightarrow> Dividend_Yield (Financial_Health snap) = u ''N/A'')
    \<and> (map_of info_d (u ''returnOnEquity'') = Some (PFloat (Finite 0))
            \<longrightarrow> ROE (Financial_Health snap) = u ''N/A'')
    \<and> u ''N/A'' \<noteq> u ''0.00%''
    \<and> fixed2 (float_mul (Finite 0) (Finite 100)) @ [37] = u ''0.00%''"
proof -
  have z: "map_of info_d key = Some (PFloat (Finite 0)) \<Longrightarrow> percent_field info_d key = Inr (u ''N/A'')" for key
    by (rule percent_field_falsy) (simp add: dict_get_def)
  have "u ''N/A'' \<noteq> u ''0.00%''" by (simp add: u_def)
  moreover have "fixed2 (float_mul (Finite 0) (Finite 100)) @ [37] = u ''0.00%''" by code_simp
  ultimately show ?thesis
    using z fetch_percent_fields[OF assms] by auto
qed

theorem zero_yield_not_available_zero_inc:
  "fetch_stock_data zero_env (u ''ZERO'') = ([], Some zero_snapshot)
   \<and> map_of zero_info (u ''dividendYield'') = Some (PFloat (Finite 0))
   \<and> map_of zero_info (u ''returnOnEquity'') = Some (PFloat (Finite 0))
   \<and> Dividend_Yield (Financial_Health zero_snapshot) = u ''N/A''
   \<and> ROE (Financial_Health zero_snapshot) = u ''N/A''"
proof -
  have f: "fetch_stock_data zero_env (u ''ZERO'') = ([], Some zero_snapshot)"
    by code_simp
  have t: "yf_Ticker zero_env (u ''ZERO'') = Inr zero_stock"
    by (simp add: zero_env_def demo_env_def)
  have i: "info zero_stock = Inr zero_info"
    by (simp add: zero_stock_def demo_stock_def)
  have d: "map_of zero_info (u ''dividendYield'') = Some (PFloat (Finite 0))"
    by code_simp
  have r: "map_of zero_info (u ''returnOnEquity'') = Some (PFloat (Finite 0))"
    by code_simp
  from zero_yield_not_available[OF f t i] f d r show ?thesis
    by simp
qed

section \<open>Recommendation history\<close>

lemma fetch_recommendations:
  assumes "fetch_stock_data E ticker = (errs, Some snap)"
    and "yf_Ticker E ticker = Inr stk"
  shows "Recommendations snap =
     (if \<not> df_empty (recs_of stk) then df_tail 5 (recs_of stk) else DataFrame_new)"
proof -
  from fetch_snapshotD[OF assms(1)] assms(2)
  obtain d h ddg where "build_snapshot E d (recs_of stk) h ddg = Inr snap" by auto
  from build_snapshotD(4)[OF this] show ?thesis .
qed

text \<open>
  Claim C8. When the recommendations lookup returns a frame of \<open>n\<close> analyst rows (a
  frame with at least one column), the RecommendationHistory of a snapshot that fetch
  returns consists of the last \<open>min 5 n\<close> rows in their original order: the rows are
  the given ones with the first \<open>n - 5\<close> dropped, so for \<open>n > 5\<close> exactly the last five
  and for \<open>n \<le> 5\<close> all of them.
\<close>

theorem recommendations_last_five:
  assumes "fetch_stock_data E ticker = (errs, Some snap)"
    and "yf_Ticker E ticker = Inr stk" and "recommendations stk = Inr d"
    and "df_columns d \<noteq> []"
  shows "df_rows (Recommendations snap) = drop (length (df_rows d) - 5) (df_rows d)
    \<and> length (df_rows (Recommendations snap)) = min 5 (length (df_rows d))
    \<and> (\<exists>older. df_rows d = older @ df_rows (Recommendations snap))
    \<and> (5 < length (df_rows d) \<longrightarrow>
         (\<forall>i < 5. df_rows (Recommendations snap) ! i = df_rows d ! (length (df_rows d) - 5 + i)))
    \<and> (length (df_rows d) \<le> 5 \<longrightarrow> df_rows (Recommendations snap) = df_rows d)"
proof -
  have r: "recs_of stk = d" using assms(3) by (simp add: recs_of_def)
  have rows: "df_rows (Recommendations snap) = drop (length (df_rows d) - 5) (df_rows d)"
    using fetch_recommendations[OF assms(1,2)] assms(4)
    by (auto simp: r df_empty_def df_tail_def DataFrame_new_def)
  have "df_rows d = take (length (df_rows d) - 5) (df_rows d) @ df_rows (Recommendations snap)"
    by (simp add: rows)
  then have "\<exists>older. df_rows d = older @ df_rows (Recommendations snap)" ..
  then show ?thesis using rows by auto
qed

theorem recommendations_last_five_of_eight:
  "fetch_stock_data (rated_env eight_rows) (u ''ACME'')
     = ([], Some (acme_snapshot\<lparr>Recommendations := \<lparr>df_columns = [u ''period'', u ''buy''],
          df_rows = [[PStr (u ''-4m''), PInt 4], [PStr (u ''-3m''), PInt 5],
                     [PStr (u ''-2m''), PInt 6], [PStr (u ''-1m''), PInt 7],
                     [PStr (u ''0m''), PInt 8]]\<rparr>\<rparr>))
   \<and> length (df_rows eight_rows) = 8
   \<and> drop (length (df_rows eight_rows) - 5) (df_rows eight_rows)
       = [[PStr (u ''-4m''), PInt 4], [PStr (u ''-3m''), PInt 5], [PStr (u ''-2m''), PInt 6],
          [PStr (u ''-1m''), PInt 7], [PStr (u ''0m''), PInt 8]]
   \<and> fetch_stock_data (rated_env three_rows) (u ''ACME'')
     = ([], Some (acme_snapshot\<lparr>Recommendations := three_rows\<rparr>))
   \<and> length (df_rows three_rows) = 3"
proof -
  let ?last5 = "\<lparr>df_columns = [u ''period'', u ''buy''],
          df_rows = [[PStr (u ''-4m''), PInt 4], [PStr (u ''-3m''), PInt 5],
                     [PStr (u ''-2m''), PInt 6], [PStr (u ''-1m''), PInt 7],
                     [PStr (u ''0m''), PInt 8]]\<rparr>"
  have f8: "fetch_stock_data (rated_env eight_rows) (u ''ACME'')
     = ([], Some (acme_snapshot\<lparr>Recommendations := ?last5\<rparr>))"
    by code_simp
  have f3: "fetch_stock_data (rated_env three_rows) (u ''ACME'')
     = ([], Some (acme_snapshot\<lparr>Recommendations := three_rows\<rparr>))"
    by code_simp
  have t: "yf_Ticker (rated_env r) (u ''ACME'') = Inr (rated_stock r)" for r
    by (simp add: rated_env_def demo_env_def)
  have i: "recommendations (rated_stock r) = Inr r" for r
    by (simp add: rated_stock_def demo_stock_def)
  have c8: "df_columns eight_rows \<noteq> []" by (simp add: eight_rows_def)
  have c3: "df_columns three_rows \<noteq> []" by (simp add: three_rows_def)
  have l8: "length (df_rows eight_rows) = 8" by (simp add: eight_rows_def)
  have l3: "length (df_rows three_rows) = 3" by (simp add: three_rows_def)
  note a = recommendations_last_five[OF f8 t i c8]
  note b = recommendations_last_five[OF f3 t i c3]
  from a b f8 f3 l8 l3 show ?thesis by simp
qed

section \<open>Failures of the fetch\<close>

lemma fetch_reached:
  assumes "yf_Ticker E ticker = Inr stk" and "history stk (u ''1y'') = Inr h"
    and "info stk = Inr d" and "d \<noteq> []"
  shows "fetch_stock_data E ticker =
     (case aggregate E ticker stk h d of Inl e \<Rightarrow> unexpected e | Inr snap \<Rightarrow> ([], Some snap))"
  using assms
  by (simp add: fetch_stock_data_def fetch_body_def unexpected_def split: sum.splits)

lemma aggregate_eq:
  "aggregate E ticker stk h d =
     (case DDGS E of
        Inl e \<Rightarrow> Inl e
      | Inr news \<Rightarrow>
         (case news (news_query E ticker d) 10 of
            Inl e \<Rightarrow> Inl e
          | Inr ddg \<Rightarrow> build_snapshot E d (recs_of stk) h ddg))"
  unfolding aggregate_def recs_of_def news_query_def Let_def
  by (rule refl)

lemma fetch_outcome:
  "(\<exists>snap. fetch_stock_data E ticker = ([], Some snap))
     \<or> (\<exists>msg. fetch_stock_data E ticker = ([Error msg], None))"
  unfolding fetch_stock_data_def fetch_body_def
  by (auto split: sum.splits)

text \<open>
  The exceptions that leave the aggregation: those of the news search and of the three
  formatted fields. A failing recommendations lookup is not among them.
\<close>

lemma build_snapshot_Inl_iff:
  "build_snapshot E d recs h ddg = Inl e \<longleftrightarrow>
     market_cap_field E d = Inl e
     \<or> (\<exists>mc. market_cap_field E d = Inr mc \<and>
          (percent_field d (u ''dividendYield'') = Inl e
           \<or> (\<exists>dy. percent_field d (u ''dividendYield'') = Inr dy
                \<and> percent_field d (u ''returnOnEquity'') = Inl e)))"
  unfolding build_snapshot_def by (auto split: sum.splits)

lemma aggregate_Inl_iff:
  "aggregate E ticker stk h d = Inl e \<longleftrightarrow>
     DDGS E = Inl e
     \<or> (\<exists>news. DDGS E = Inr news \<and>
          (news (news_query E ticker d) 10 = Inl e
           \<or> (\<exists>ddg. news (news_query E ticker d) 10 = Inr ddg
                \<and> build_snapshot E d (recs_of stk) h ddg = Inl e)))"
  unfolding aggregate_def recs_of_def news_query_def Let_def by (auto split: sum.splits)

text \<open>
  Claim C9. Once the info check is passed, an exception raised by the rest of the
  aggregation (the news search or the formatting of a field; a failing recommendations
  lookup is handled on its own and never gets here) is turned into one report of the
  generic error, and no snapshot is returned. Whatever happens, fetch either returns a
  snapshot without any report, or one report without a snapshot.
\<close>

theorem aggregation_failure_reported_once:
  assumes "yf_Ticker E ticker = Inr stk" and "history stk (u ''1y'') = Inr h"
    and "info stk = Inr d" and "d \<noteq> []"
    and "aggregate E ticker stk h d = Inl e"
  shows "fetch_stock_data E ticker
       = ([Error (u ''Unexpected error fetching stock data: '' @ exn_str e)], None)
    \<and> ((\<exists>snap. fetch_stock_data E' ticker' = ([], Some snap))
         \<or> (\<exists>msg. fetch_stock_data E' ticker' = ([Error msg], None)))"
  using fetch_reached[OF assms(1-4)] assms(5) fetch_outcome[of E' ticker']
  by (simp add: unexpected_def)

theorem aggregation_failure_reported_once_search_down:
  "aggregate newsless_env (u ''ACME'') acme_stock demo_history acme_info
     = Inl (ExternalError (u ''search unavailable''))
   \<and> fetch_stock_data newsless_env (u ''ACME'')
     = ([Error (u ''Unexpected error fetching stock data: search unavailable'')], None)"
proof -
  have t: "yf_Ticker newsless_env (u ''ACME'') = Inr acme_stock"
    by (simp add: newsless_env_def demo_env_def)
  have h: "history acme_stock (u ''1y'') = Inr demo_history"
    by (simp add: acme_stock_def demo_stock_def)
  have i: "info acme_stock = Inr acme_info"
    by (simp add: acme_stock_def demo_stock_def)
  have n: "acme_info \<noteq> []" by (simp add: acme_info_def)
  have a: "aggregate newsless_env (u ''ACME'') acme_stock demo_history acme_info
     = Inl (ExternalError (u ''search unavailable''))"
    by code_simp
  have m: "u ''Unexpected error fetching stock data: '' @ exn_str (ExternalError (u ''search unavailable''))
     = u ''Unexpected error fetching stock data: search unavailable''"
    by (simp add: u_def)
  from aggregation_failure_reported_once[OF t h i n a] a m show ?thesis by simp
qed

text \<open>
  Claim C4, as amended. The history lookup runs before the info lookup. When it
  returns, an info lookup that raises or returns an empty payload makes fetch report
  the matching info error and return no snapshot; when the history lookup itself
  raises, fetch reports the generic error instead. In each case there is one report
  and no snapshot.
\<close>

theorem info_failure_reported:
  assumes "yf_Ticker E ticker = Inr stk"
  shows "(\<forall>h e. history stk (u ''1y'') = Inr h \<and> info stk = Inl e \<longrightarrow>
            fetch_stock_data E ticker
              = ([Error (u ''Error fetching stock info: '' @ exn_str e)], None))
    \<and> (\<forall>h. history stk (u ''1y'') = Inr h \<and> info stk = Inr [] \<longrightarrow>
            fetch_stock_data E ticker
              = ([Error (u ''No data found for ticker: '' @ ticker)], None))
    \<and> (\<forall>e. history stk (u ''1y'') = Inl e \<longrightarrow>
            fetch_stock_data E ticker
              = ([Error (u ''Unexpected error fetching stock data: '' @ exn_str e)], None))"
  using assms
  by (simp add: fetch_stock_data_def fetch_body_def)

theorem info_failure_reported_runs:
  "fetch_stock_data info_down_env (u ''ACME'')
     = ([Error (u ''Error fetching stock info: info unavailable'')], None)
   \<and> fetch_stock_data unknown_env (u ''NOPE'')
     = ([Error (u ''No data found for ticker: NOPE'')], None)
   \<and> fetch_stock_data down_env (u ''ACME'')
     = ([Error (u ''Unexpected error fetching stock data: history unavailable'')], None)"
proof -
  have t1: "yf_Ticker info_down_env (u ''ACME'') = Inr info_down_stock"
    by (simp add: info_down_env_def demo_env_def)
  have t2: "yf_Ticker unknown_env (u ''NOPE'') = Inr unknown_stock"
    by (simp add: unknown_env_def demo_env_def)
  have t3: "yf_Ticker down_env (u ''ACME'') = Inr down_stock"
    by (simp add: down_env_def demo_env_def)
  have h1: "history info_down_stock (u ''1y'') = Inr demo_history
      \<and> info info_down_stock = Inl (ExternalError (u ''info unavailable''))"
    by (simp add: info_down_stock_def demo_stock_def)
  have h2: "history unknown_stock (u ''1y'') = Inr demo_history \<and> info unknown_stock = Inr []"
    by (simp add: unknown_stock_def demo_stock_def)
  have h3: "history down_stock (u ''1y'') = Inl (ExternalError (u ''history unavailable''))"
    by (simp add: down_stock_def)
  from info_failure_reported[OF t1] h1
  have 1: "fetch_stock_data info_down_env (u ''ACME'')
     = ([Error (u ''Error fetching stock info: '' @ exn_str (ExternalError (u ''info unavailable'')))], None)"
    by blast
  from info_failure_reported[OF t2] h2
  have 2: "fetch_stock_data unknown_env (u ''NOPE'')
     = ([Error (u ''No data found for ticker: '' @ u ''NOPE'')], None)"
    by blast
  from info_failure_reported[OF t3] h3
  have 3: "fetch_stock_data down_env (u ''ACME'')
     = ([Error (u ''Unexpected error fetching stock data: '' @ exn_str (ExternalError (u ''history unavailable'')))], None)"
    by blast
  from 1 2 3 show ?thesis by (simp add: u_def)
qed

theorem info_failure_behind_history_failure:
  "yf_Ticker down_env (u ''ACME'') = Inr down_stock
   \<and> info down_stock = Inl (ExternalError (u ''info unavailable''))
   \<and> fetch_stock_data down_env (u ''ACME'')
     = ([Error (u ''Unexpected error fetching stock data: history unavailable'')], None)
   \<and> fetch_stock_data down_env (u ''ACME'')
     \<noteq> ([Error (u ''Error fetching stock info: info unavailable'')], None)"
proof -
  have f: "fetch_stock_data down_env (u ''ACME'')
     = ([Error (u ''Unexpected error fetching stock data: history unavailable'')], None)"
    by code_simp
  have n: "u ''Unexpected error fetching stock data: history unavailable''
     \<noteq> u ''Error fetching stock info: info unavailable''"
    by (simp add: u_def)
  show ?thesis using f n
    by (simp add: down_env_def demo_env_def down_stock_def)
qed

text \<open>
  Claim C3, as amended. For an info lookup that succeeds non-empty, a recommendations
  lookup that raises or returns an empty payload never fails the fetch by itself:
  provided the history lookup and the news search return and the three formatted fields
  can be formatted, fetch returns a snapshot, and its RecommendationHistory is the empty
  sequence.
\<close>

theorem recommendations_failure_degrades:
  assumes "yf_Ticker E ticker = Inr stk" and "history stk (u ''1y'') = Inr h"
    and "info stk = Inr d" and "d \<noteq> []"
    and "recommendations stk = Inl e \<or> (\<exists>r. recommendations stk = Inr r \<and> df_empty r)"
    and "DDGS E = Inr news" and "news (news_query E ticker d) 10 = Inr ddg"
    and "market_cap_field E d = Inr mc"
    and "percent_field d (u ''dividendYield'') = Inr dy"
    and "percent_field d (u ''returnOnEquity'') = Inr roe"
  shows "\<exists>snap. fetch_stock_data E ticker = ([], Some snap)
     \<and> Recommendations snap = DataFrame_new \<and> df_rows (Recommendations snap) = []"
proof -
  have r: "(if \<not> df_empty (recs_of stk) then df_tail 5 (recs_of stk) else DataFrame_new)
      = DataFrame_new"
    using assms(5) by (auto simp: recs_of_def df_empty_def DataFrame_new_def)
  obtain snap where b: "build_snapshot E d (recs_of stk) h ddg = Inr snap"
    using assms(8-10) by (simp add: build_snapshot_def)
  from build_snapshotD(4)[OF b] r have "Recommendations snap = DataFrame_new" by simp
  moreover have "fetch_stock_data E ticker = ([], Some snap)"
    using fetch_reached[OF assms(1-4)] assms(6,7) b by (simp add: aggregate_eq)
  ultimately show ?thesis by (auto simp: DataFrame_new_def)
qed

theorem recommendations_failure_degrades_runs:
  "recommendations acme_stock = Inl (ExternalError (u ''no recommendations''))
   \<and> fetch_stock_data acme_env (u ''ACME'') = ([], Some acme_snapshot)
   \<and> Recommendations acme_snapshot = DataFrame_new
   \<and> recommendations zero_stock = Inr DataFrame_new
   \<and> fetch_stock_data zero_env (u ''ZERO'') = ([], Some zero_snapshot)
   \<and> Recommendations zero_snapshot = DataFrame_new"
proof -
  have a1: "yf_Ticker acme_env (u ''ACME'') = Inr acme_stock"
    by (simp add: acme_env_def demo_env_def)
  have a2: "history acme_stock (u ''1y'') = Inr demo_history"
    by (simp add: acme_stock_def demo_stock_def)
  have a3: "info acme_stock = Inr acme_info" by (simp add: acme_stock_def demo_stock_def)
  have a4: "acme_info \<noteq> []" by (simp add: acme_info_def)
  have a5: "recommendations acme_stock = Inl (ExternalError (u ''no recommendations''))"
    by (simp add: acme_stock_def demo_stock_def)
  have a6: "DDGS acme_env = Inr (\<lambda>query max_results. Inr [])"
    by (simp add: acme_env_def demo_env_def no_news_def)
  have a8: "market_cap_field acme_env acme_info = Inr (u ''$123,456,789'')" by code_simp
  have a9: "percent_field acme_info (u ''dividendYield'') = Inr (u ''N/A'')" by code_simp
  have a10: "percent_field acme_info (u ''returnOnEquity'') = Inr (u ''N/A'')" by code_simp
  from recommendations_failure_degrades[OF a1 a2 a3 a4 disjI1[OF a5] a6 refl a8 a9 a10]
  obtain s1 where s1: "fetch_stock_data acme_env (u ''ACME'') = ([], Some s1)"
    "Recommendations s1 = DataFrame_new" by blast
  have f1: "fetch_stock_data acme_env (u ''ACME'') = ([], Some acme_snapshot)" by code_simp
  have z1: "yf_Ticker zero_env (u ''ZERO'') = Inr zero_stock"
    by (simp add: zero_env_def demo_env_def)
  have z2: "history zero_stock (u ''1y'') = Inr demo_history"
    by (simp add: zero_stock_def demo_stock_def)
  have z3: "info zero_stock = Inr zero_info" by (simp add: zero_stock_def demo_stock_def)
  have z4: "zero_info \<noteq> []" by (simp add: zero_info_def)
  have z5: "recommendations zero_stock = Inr DataFrame_new"
    by (simp add: zero_stock_def demo_stock_def)
  have z5': "\<exists>r. recommendations zero_stock = Inr r \<and> df_empty r"
    using z5 by (simp add: df_empty_def DataFrame_new_def)
  have z6: "DDGS zero_env = Inr (\<lambda>query max_results. Inr [])"
    by (simp add: zero_env_def demo_env_def no_news_def)
  have z8: "market_cap_field zero_env zero_info = Inr (u ''$5,000'')" by code_simp
  have z9: "percent_field zero_info (u ''dividendYield'') = Inr (u ''N/A'')" by code_simp
  have z10: "percent_field zero_info (u ''returnOnEquity'') = Inr (u ''N/A'')" by code_simp
  from recommendations_failure_degrades[OF z1 z2 z3 z4 disjI2[OF z5'] z6 refl z8 z9 z10]
  obtain s2 where s2: "fetch_stock_data zero_env (u ''ZERO'') = ([], Some s2)"
    "Recommendations s2 = DataFrame_new" by blast
  have f2: "fetch_stock_data zero_env (u ''ZERO'') = ([], Some zero_snapshot)" by code_simp
  from s1 f1 s2 f2 a5 z5 show ?thesis by simp
qed

theorem recommendations_failure_with_search_failure:
  "yf_Ticker newsless_env (u ''ACME'') = Inr acme_stock
   \<and> info acme_stock = Inr acme_info \<and> acme_info \<noteq> []
   \<and> recommendations acme_stock = Inl (ExternalError (u ''no recommendations''))
   \<and> fetch_stock_data newsless_env (u ''ACME'')
     = ([Error (u ''Unexpected error fetching stock data: search unavailable'')], None)"
proof -
  have f: "fetch_stock_data newsless_env (u ''ACME'')
     = ([Error (u ''Unexpected error fetching stock data: search unavailable'')], None)"
    by code_simp
  show ?thesis using f
    by (simp add: newsless_env_def demo_env_def acme_stock_def demo_stock_def acme_info_def)
qed

section \<open>A payload without market capitalisation\<close>

lemma market_cap_field_absent:
  "map_of d (u ''marketCap'') = None \<Longrightarrow> \<exists>m. market_cap_field E d = Inl (ValueError m)"
  by (simp add: market_cap_field_def dict_get_def)

lemma fetch_needs_market_cap:
  assumes "fetch_stock_data E ticker = (errs, Some snap)"
    and "yf_Ticker E ticker = Inr stk" and "info stk = Inr d"
  shows "map_of d (u ''marketCap'') \<noteq> None"
proof
  assume "map_of d (u ''marketCap'') = None"
  from market_cap_field_absent[OF this] obtain m where "market_cap_field E d = Inl (ValueError m)"
    by blast
  moreover from fetch_snapshotD[OF assms(1)] assms(2,3)
  obtain recs h ddg where "build_snapshot E d recs h ddg = Inr snap" by auto
  ultimately show False using build_snapshotD(1) by fastforce
qed

text \<open>
  Claim C1, at an input where the code departs from it. The payload \<open>index_info\<close> is
  non-empty and has no \<open>marketCap\<close>. The field is then formatted from the default
  \<open>'N/A'\<close> with the \<open>,\<close> option, which raises ValueError for a string; the outer handler
  reports the generic error and fetch returns no snapshot, so no Market Cap field
  holding the marker exists.
\<close>

theorem missing_market_cap_fails_fetch:
  "yf_Ticker index_env (u ''IDX'') = Inr index_stock
   \<and> info index_stock = Inr index_info
   \<and> map_of index_info (u ''marketCap'') = None
   \<and> fetch_stock_data index_env (u ''IDX'')
     = ([Error (u ''Unexpected error fetching stock data: Cannot specify '' @ [39] @ u '',''
          @ [39] @ u '' with '' @ [39] @ u ''s'' @ [39] @ u ''.'')], None)"
proof -
  have f: "fetch_stock_data index_env (u ''IDX'')
     = ([Error (u ''Unexpected error fetching stock data: Cannot specify '' @ [39] @ u '',''
          @ [39] @ u '' with '' @ [39] @ u ''s'' @ [39] @ u ''.'')], None)"
    by code_simp
  have m: "map_of index_info (u ''marketCap'') = None" by code_simp
  show ?thesis using f m
    by (simp add: index_env_def demo_env_def index_stock_def demo_stock_def)
qed

section \<open>Formatting of the percentage fields\<close>

lemma fixed2_two_decimals:
  "\<exists>n. \<bar>of_int n - \<bar>r\<bar> * 100\<bar> \<le> 1 / 2
     \<and> fixed2 (Finite r) = (if r < 0 then [45] else []) @ dec (n div 100)
          @ [46, nat (48 + n mod 100 div 10), nat (48 + n mod 10)]"
  using round_half_even_close[of "\<bar>r\<bar> * 100"]
  by (intro exI[of _ "round_half_even (\<bar>r\<bar> * 100)"]) (simp add: fixed2_def Let_def)

text \<open>
  Claim C6, as amended. In a snapshot that fetch returns, the dividend yield (and
  likewise the return on equity) is formatted from the payload entry as follows. An
  entry that is a float other than zero, or an integer other than zero, is multiplied
  by 100 and printed with two decimals (the value rounded to the nearest hundredth),
  followed by a percent sign; the raw value 0.0123 gives \<open>1.23%\<close>. An entry that is
  absent, None, or otherwise false as a truth value, the numbers 0 and 0.0 included,
  gives \<open>N/A\<close>.
\<close>

theorem percent_fields_formatting:
  assumes "fetch_stock_data E ticker = (errs, Some snap)"
    and "yf_Ticker E ticker = Inr stk" and "info stk = Inr info_d"
    and "(key = u ''dividendYield'' \<and> field = Dividend_Yield (Financial_Health snap))
       \<or> (key = u ''returnOnEquity'' \<and> field = ROE (Financial_Health snap))"
  shows "(\<forall>f. map_of info_d key = Some (PFloat f) \<and> f \<noteq> Finite 0 \<and> f \<noteq> NegZero \<longrightarrow>
            field = fixed2 (float_mul f (Finite 100)) @ [37])
    \<and> (\<forall>n. map_of info_d key = Some (PInt n) \<and> n \<noteq> 0 \<longrightarrow>
            (\<exists>f. float_of_int (n * 100) = Inr f \<and> field = fixed2 f @ [37]))
    \<and> (map_of info_d key = None \<longrightarrow> field = u ''N/A'')
    \<and> (\<forall>v. map_of info_d key = Some v \<and> \<not> truthy v \<longrightarrow> field = u ''N/A'')
    \<and> (\<forall>r. \<exists>n. \<bar>of_int n - \<bar>r\<bar> * 100\<bar> \<le> 1 / 2
          \<and> fixed2 (Finite r) = (if r < 0 then [45] else []) @ dec (n div 100)
               @ [46, nat (48 + n mod 100 div 10), nat (48 + n mod 10)])
    \<and> fixed2 (float_mul (float_of_rat (123 / 10000)) (Finite 100)) @ [37] = u ''1.23%''"
proof -
  have p: "percent_field info_d key = Inr field"
    using fetch_percent_fields[OF assms(1-3)] assms(4) by auto
  have 1: "field = fixed2 (float_mul f (Finite 100)) @ [37]"
    if "map_of info_d key = Some (PFloat f)" "f \<noteq> Finite 0" "f \<noteq> NegZero" for f
    using percent_field_float[of info_d key f] that p by simp
  have 2: "\<exists>f. float_of_int (n * 100) = Inr f \<and> field = fixed2 f @ [37]"
    if "map_of info_d key = Some (PInt n)" "n \<noteq> 0" for n
    using percent_field_int[OF that] p by (auto split: sum.splits)
  have 3: "field = u ''N/A''" if "map_of info_d key = None"
    using percent_field_falsy[of info_d key] that p by (simp add: dict_get_def)
  have 4: "field = u ''N/A''" if "map_of info_d key = Some v" "\<not> truthy v" for v
    using percent_field_falsy[of info_d key] that p by (simp add: dict_get_def)
  have 5: "fixed2 (float_mul (float_of_rat (123 / 10000)) (Finite 100)) @ [37] = u ''1.23%''"
    by code_simp
  show ?thesis using 1 2 3 4 5 fixed2_two_decimals by blast
qed

theorem percent_fields_formatting_runs:
  "fetch_stock_data yield_env (u ''YLD'') = ([], Some yield_snapshot)
   \<and> map_of yield_info (u ''dividendYield'') = Some (PFloat (float_of_rat (123 / 10000)))
   \<and> Dividend_Yield (Financial_Health yield_snapshot) = u ''1.23%''
   \<and> map_of yield_info (u ''returnOnEquity'') = Some (PInt 2)
   \<and> ROE (Financial_Health yield_snapshot) = u ''200.00%''
   \<and> map_of acme_info (u ''dividendYield'') = None
   \<and> Dividend_Yield (Financial_Health acme_snapshot) = u ''N/A''
   \<and> map_of zero_info (u ''returnOnEquity'') = Some (PFloat (Finite 0))
   \<and> ROE (Financial_Health zero_snapshot) = u ''N/A''"
proof -
  have fy: "fetch_stock_data yield_env (u ''YLD'') = ([], Some yield_snapshot)" by code_simp
  have ty: "yf_Ticker yield_env (u ''YLD'') = Inr yield_stock"
    by (simp add: yield_env_def demo_env_def)
  have iy: "info yield_stock = Inr yield_info" by (simp add: yield_stock_def demo_stock_def)
  have d: "map_of yield_info (u ''dividendYield'') = Some (PFloat (float_of_rat (123 / 10000)))"
    by code_simp
  have nz: "float_of_rat (123 / 10000) \<noteq> Finite 0 \<and> float_of_rat (123 / 10000) \<noteq> NegZero"
    by code_simp
  have r: "map_of yield_info (u ''returnOnEquity'') = Some (PInt 2)" by code_simp
  have fa: "fetch_stock_data acme_env (u ''ACME'') = ([], Some acme_snapshot)" by code_simp
  have ta: "yf_Ticker acme_env (u ''ACME'') = Inr acme_stock"
    by (simp add: acme_env_def demo_env_def)
  have ia: "info acme_stock = Inr acme_info" by (simp add: acme_stock_def demo_stock_def)
  have a: "map_of acme_info (u ''dividendYield'') = None" by code_simp
  have fz: "fetch_stock_data zero_env (u ''ZERO'') = ([], Some zero_snapshot)" by code_simp
  have tz: "yf_Ticker zero_env (u ''ZERO'') = Inr zero_stock"
    by (simp add: zero_env_def demo_env_def)
  have iz: "info zero_stock = Inr zero_info" by (simp add: zero_stock_def demo_stock_def)
  have z: "map_of zero_info (u ''returnOnEquity'') = Some (PFloat (Finite 0))" by code_simp
  have 1: "Dividend_Yield (Financial_Health yield_snapshot)
      = fixed2 (float_mul (float_of_rat (123 / 10000)) (Finite 100)) @ [37]"
    using percent_fields_formatting[OF fy ty iy disjI1[OF conjI[OF refl refl]]] d nz by blast
  have 2: "\<exists>f. float_of_int (2 * 100) = Inr f
      \<and> ROE (Financial_Health yield_snapshot) = fixed2 f @ [37]"
    using percent_fields_formatting[OF fy ty iy disjI2[OF conjI[OF refl refl]]] r by simp
  have 3: "Dividend_Yield (Financial_Health acme_snapshot) = u ''N/A''"
    using percent_fields_formatting[OF fa ta ia disjI1[OF conjI[OF refl refl]]] a by blast
  have 4: "ROE (Financial_Health zero_snapshot) = u ''N/A''"
    using percent_fields_formatting[OF fz tz iz disjI2[OF conjI[OF refl refl]]] z by simp
  have e1: "fixed2 (float_mul (float_of_rat (123 / 10000)) (Finite 100)) @ [37] = u ''1.23%''"
    by code_simp
  have e2: "float_of_int (2 * 100) = Inr (Finite 200)" by code_simp
  have e3: "fixed2 (Finite 200) @ [37] = u ''200.00%''" by code_simp
  from 1 2 3 4 e1 e2 e3 fy d r a z show ?thesis by simp
qed

theorem zero_yield_formatted_as_absent:
  "map_of zero_info (u ''dividendYield'') = Some (PFloat (Finite 0))
   \<and> fetch_stock_data zero_env (u ''ZERO'') = ([], Some zero_snapshot)
   \<and> Dividend_Yield (Financial_Health zero_snapshot) = u ''N/A''
   \<and> fixed2 (float_mul (Finite 0) (Finite 100)) @ [37] = u ''0.00%''
   \<and> Dividend_Yield (Financial_Health zero_snapshot)
       \<noteq> fixed2 (float_mul (Finite 0) (Finite 100)) @ [37]"
  by code_simp

section \<open>Strings\<close>

lemma is_prefix_iff: "is_prefix sub s \<longleftrightarrow> (\<exists>q. s = sub @ q)"
  by (induction sub s rule: is_prefix.induct) auto

lemma py_in_iff: "py_in sub s \<longleftrightarrow> (\<exists>p q. s = p @ sub @ q)"
proof (induction s)
  case Nil
  then show ?case by (auto simp: is_prefix_iff)
next
  case (Cons c cs)
  show ?case
  proof
    assume "py_in sub (c # cs)"
    then consider "is_prefix sub (c # cs)" | "py_in sub cs" by auto
    then show "\<exists>p q. c # cs = p @ sub @ q"
    proof cases
      case 1
      then obtain q where "c # cs = sub @ q" by (auto simp: is_prefix_iff)
      then have "c # cs = [] @ sub @ q" by simp
      then show ?thesis by blast
    next
      case 2
      with Cons.IH obtain p q where "cs = p @ sub @ q" by blast
      then have "c # cs = (c # p) @ sub @ q" by simp
      then show ?thesis by blast
    qed
  next
    assume "\<exists>p q. c # cs = p @ sub @ q"
    then obtain p q where pq: "c # cs = p @ sub @ q" by blast
    show "py_in sub (c # cs)"
    proof (cases p)
      case Nil
      with pq have "is_prefix sub (c # cs)" by (auto simp: is_prefix_iff)
      then show ?thesis by simp
    next
      case (Cons a p')
      with pq have "cs = p' @ sub @ q" by simp
      with Cons.IH have "py_in sub cs" by blast
      then show ?thesis by simp
    qed
  qed
qed

lemma py_in_marker: "py_in marker s \<longleftrightarrow> 10060 \<in> set s"
  by (induction s) (auto simp: marker_def)








section \<open>The advisor's answer\<close>



text \<open>
  Claim C2. When the text generation raises, generate returns a string that starts
  with, and so contains, the failure marker. The presentation renders any analysis
  string that contains the marker as an error, and any string that does not as a
  headline followed by its reasons, whatever else the string holds.
\<close>

theorem advisor_failure_marker:
  "(generate_content E (prompt E stock_data news) 500 = Inl e \<longrightarrow>
      generate_gemini_analysis E stock_data news
        = marker @ u '' Gemini Analysis Error: '' @ exn_str e
      \<and> is_prefix marker (generate_gemini_analysis E stock_data news)
      \<and> py_in marker (generate_gemini_analysis E stock_data news)
      \<and> render_analysis (generate_gemini_analysis E stock_data news)
          = [Error (generate_gemini_analysis E stock_data news)])
   \<and> (py_in marker a \<longrightarrow> render_analysis a = [Error a])
   \<and> (\<not> py_in marker b \<longrightarrow>
        render_analysis b =
          [Markdown (u ''### Decision Recommendation''), Success (hd (py_split 10 b)),
           Markdown (u ''### Key Reasons'')]
          @ map (\<lambda>line. Write (u ''- '' @ py_strip line))
              (filter (\<lambda>line. py_strip line \<noteq> []) (tl (py_split 10 b))))
   \<and> (py_in marker c \<longleftrightarrow> (\<exists>p q. c = p @ marker @ q))"
proof -
  have "py_in marker (marker @ x)" for x
    by (simp add: py_in_iff) (metis append_Nil)
  moreover have "is_prefix marker (marker @ x)" for x by (simp add: is_prefix_iff)
  ultimately show ?thesis
    by (simp add: generate_gemini_analysis_def render_analysis_def render_verdict_def
        Let_def py_in_iff)
qed

theorem advisor_failure_marker_runs:
  "generate_gemini_analysis mute_env acme_snapshot []
     = [10060] @ u '' Gemini Analysis Error: quota exceeded''
   \<and> render_analysis (generate_gemini_analysis mute_env acme_snapshot [])
     = [Error ([10060] @ u '' Gemini Analysis Error: quota exceeded'')]
   \<and> render_analysis (u ''Buy now '' @ [10060] @ [10] @ u ''- cheap'')
     = [Error (u ''Buy now '' @ [10060] @ [10] @ u ''- cheap'')]
   \<and> render_analysis (u ''Sell'' @ [10] @ u ''- overvalued'' @ [10] @ u ''- weak guidance'')
     = [Markdown (u ''### Decision Recommendation''), Success (u ''Sell''),
        Markdown (u ''### Key Reasons''), Write (u ''- - overvalued''),
        Write (u ''- - weak guidance'')]"
proof -
  let ?a = "u ''Buy now '' @ [10060] @ [10] @ u ''- cheap''"
  let ?b = "u ''Sell'' @ [10] @ u ''- overvalued'' @ [10] @ u ''- weak guidance''"
  have g: "generate_content mute_env (prompt mute_env acme_snapshot []) 500
     = Inl (ExternalError (u ''quota exceeded''))"
    by (simp add: mute_env_def demo_env_def quota_exceeded_def)
  have ia: "py_in marker ?a" by (simp only: py_in_marker) (simp add: u_def)
  have ib: "\<not> py_in marker ?b" by (simp only: py_in_marker) (simp add: u_def)
  note t = advisor_failure_marker[of mute_env acme_snapshot "[]"
      "ExternalError (u ''quota exceeded'')" ?a ?b "[]"]
  have m: "marker @ u '' Gemini Analysis Error: '' @ exn_str (ExternalError (u ''quota exceeded''))
     = [10060] @ u '' Gemini Analysis Error: quota exceeded''"
    by (simp add: marker_def u_def)
  have 1: "generate_gemini_analysis mute_env acme_snapshot []
     = [10060] @ u '' Gemini Analysis Error: quota exceeded''"
    using t g m by simp
  have 2: "render_analysis (generate_gemini_analysis mute_env acme_snapshot [])
     = [Error (generate_gemini_analysis mute_env acme_snapshot [])]"
    using t g by blast
  have 3: "render_analysis ?a = [Error ?a]" using t ia by blast
  have r: "[Markdown (u ''### Decision Recommendation''), Success (hd (py_split 10 ?b)),
           Markdown (u ''### Key Reasons'')]
          @ map (\<lambda>line. Write (u ''- '' @ py_strip line))
              (filter (\<lambda>line. py_strip line \<noteq> []) (tl (py_split 10 ?b)))
     = [Markdown (u ''### Decision Recommendation''), Success (u ''Sell''),
        Markdown (u ''### Key Reasons''), Write (u ''- - overvalued''),
        Write (u ''- - weak guidance'')]"
    by (simp add: u_def py_split_def py_strip_def is_space_def)
  have 4: "render_analysis ?b
     = [Markdown (u ''### Decision Recommendation''), Success (u ''Sell''),
        Markdown (u ''### Key Reasons''), Write (u ''- - overvalued''),
        Write (u ''- - weak guidance'')]"
    using t ib r by simp
  show ?thesis unfolding 1 by (intro conjI refl 2[unfolded 1] 3 4)
qed

section \<open>Rounding to a double\<close>


lemma bit_length_bounds:
  "0 < n \<Longrightarrow> 0 < bit_length n \<and> 2 ^ nat (bit_length n - 1) \<le> n \<and> n < 2 ^ nat (bit_length n)"
proof (induction n rule: bit_length.induct)
  case (1 n)
  show ?case
  proof (cases "n = 1")
    case True
    have "bit_length 1 = 1" by (simp add: bit_length.simps)
    with True show ?thesis by simp
  next
    case False
    with "1.prems" have m: "0 < n div 2" by simp
    from "1.prems" have "\<not> n \<le> 0" by simp
    from "1.IH"[OF this m]
    have ih: "0 < bit_length (n div 2)" "2 ^ nat (bit_length (n div 2) - 1) \<le> n div 2"
      "n div 2 < 2 ^ nat (bit_length (n div 2))" by simp_all
    have bl: "bit_length n = 1 + bit_length (n div 2)"
      using "1.prems" by (subst bit_length.simps) simp
    have e: "nat (bit_length (n div 2)) = Suc (nat (bit_length (n div 2) - 1))"
      using ih(1) by simp
    have "2 ^ nat (bit_length (n div 2)) \<le> 2 * (n div 2)"
      using ih(2) by (subst e) simp
    then have lo: "2 ^ nat (bit_length (n div 2)) \<le> n" by linarith
    have "n < 2 * 2 ^ nat (bit_length (n div 2))" using ih(3) by linarith
    then have hi: "n < 2 ^ nat (1 + bit_length (n div 2))"
      using ih(1) by (simp add: nat_add_distrib)
    from lo hi ih(1) show ?thesis by (simp add: bl)
  qed
qed

lemma pow2_powi: "pow2 e = 2 powi e"
  by (simp add: pow2_def power_int_def power_inverse[symmetric] field_simps)

lemma pow2_pos: "0 < pow2 e"
  by (simp add: pow2_powi)

lemma pow2_add: "pow2 (a + b) = pow2 a * pow2 b"
  by (simp add: pow2_powi power_int_add)

lemma pow2_nat: "0 \<le> a \<Longrightarrow> pow2 a = of_int (2 ^ nat a)"
  by (simp add: pow2_def)

lemma ilog2_bounds:
  assumes "0 < x"
  shows "pow2 (ilog2 x) \<le> x \<and> x < pow2 (ilog2 x + 1)"
proof -
  obtain p q where pq: "quotient_of x = (p, q)" by (cases "quotient_of x")
  then have q: "0 < q" by (rule quotient_of_denom_pos)
  from pq have x: "x = of_int p / of_int q" by (rule quotient_of_div)
  with assms q have p: "0 < p" by (simp add: zero_less_divide_iff)
  define a where "a = bit_length p"
  define b where "b = bit_length q"
  from bit_length_bounds[OF p] have pa: "0 < a" "2 ^ nat (a - 1) \<le> p" "p < 2 ^ nat a"
    by (simp_all add: a_def)
  from bit_length_bounds[OF q] have qb: "0 < b" "2 ^ nat (b - 1) \<le> q" "q < 2 ^ nat b"
    by (simp_all add: b_def)
  have P1: "pow2 (a - 1) \<le> of_int p" using pa(1,2) by (simp add: pow2_nat of_int_le_iff[symmetric] del: of_int_le_iff)
  have P2: "of_int p < pow2 a" using pa(1,3) by (simp add: pow2_nat of_int_less_iff[symmetric] del: of_int_less_iff)
  have Q1: "pow2 (b - 1) \<le> of_int q" using qb(1,2) by (simp add: pow2_nat of_int_le_iff[symmetric] del: of_int_le_iff)
  have Q2: "of_int q < pow2 b" using qb(1,3) by (simp add: pow2_nat of_int_less_iff[symmetric] del: of_int_less_iff)
  have qpos: "(0::rat) < of_int q" using q by simp
  have hi: "x < pow2 (a - b + 1)"
  proof -
    have "pow2 (a - b + 1) * pow2 (b - 1) = pow2 a" by (simp add: pow2_add[symmetric])
    then have "of_int p < pow2 (a - b + 1) * pow2 (b - 1)" using P2 by simp
    also have "\<dots> \<le> pow2 (a - b + 1) * of_int q"
      using Q1 pow2_pos[of "a - b + 1"] by (simp add: mult_left_mono)
    finally show ?thesis using qpos by (simp add: x pos_divide_less_eq)
  qed
  have lo: "pow2 (a - b - 1) \<le> x"
  proof -
    have "pow2 (a - b - 1) * pow2 b = pow2 (a - 1)" by (simp add: pow2_add[symmetric])
    moreover have "pow2 (a - b - 1) * of_int q \<le> pow2 (a - b - 1) * pow2 b"
      using Q2 pow2_pos[of "a - b - 1"] by (simp add: mult_left_mono)
    ultimately have "pow2 (a - b - 1) * of_int q \<le> of_int p" using P1 by simp
    then show ?thesis using qpos by (simp add: x pos_le_divide_eq)
  qed
  show ?thesis
  proof (cases "pow2 (a - b) \<le> x")
    case True
    then have "ilog2 x = a - b" by (simp add: ilog2_def pq a_def b_def)
    with True hi show ?thesis by simp
  next
    case False
    then have "ilog2 x = a - b - 1" by (simp add: ilog2_def pq a_def b_def)
    with False lo show ?thesis by simp
  qed
qed


lemma round_half_even_mono_bound:
  "0 \<le> x \<Longrightarrow> x \<le> of_int k \<Longrightarrow> 0 \<le> round_half_even x \<and> round_half_even x \<le> k"
proof -
  assume a: "0 \<le> x" "x \<le> of_int k"
  have f: "0 \<le> \<lfloor>x\<rfloor>" using a(1) by simp
  have g: "\<lfloor>x\<rfloor> \<le> k" using a(2) by (simp add: floor_le_iff)
  have h: "x - of_int \<lfloor>x\<rfloor> = 0" if "\<lfloor>x\<rfloor> = k"
  proof -
    have "of_int k \<le> x" using that of_int_floor_le[of x] by simp
    with a(2) that show ?thesis by simp
  qed
  show ?thesis
    unfolding round_half_even_def Let_def using f g h by (auto; linarith)
qed

text \<open>
  What \<open>round_double\<close> returns for a positive magnitude, when the result is finite: a
  multiple \<open>m * 2^e\<close> of the spacing \<open>2^e\<close> of the doubles around \<open>x\<close>, with at most 53
  bits in \<open>m\<close>, no farther from \<open>x\<close> than half the spacing, and of the sign asked for.
\<close>

lemma round_double_Finite:
  assumes "0 < x" and "round_double neg x = Finite y"
  shows "\<exists>m. 0 \<le> m \<and> m \<le> 2 ^ 53
     \<and> \<bar>y\<bar> = of_int m * pow2 (max (ilog2 x - 52) (- 1074))
     \<and> \<bar>\<bar>y\<bar> - x\<bar> \<le> pow2 (max (ilog2 x - 52) (- 1074)) / 2
     \<and> (y < 0 \<longrightarrow> neg) \<and> (0 < y \<longrightarrow> \<not> neg)"
proof -
  define e where "e = max (ilog2 x - 52) (- 1074)"
  define m where "m = round_half_even (x / pow2 e)"
  have pe: "0 < pow2 e" by (rule pow2_pos)
  have xe: "0 \<le> x / pow2 e" using assms(1) pe by simp
  have "x < pow2 (ilog2 x + 1)" using ilog2_bounds[OF assms(1)] by simp
  also have "pow2 (ilog2 x + 1) \<le> pow2 (e + 53)"
    by (simp add: pow2_powi e_def power_int_increasing)
  also have "pow2 (e + 53) = pow2 e * 2 ^ 53"
  proof -
    have "pow2 53 = 2 ^ 53" by (simp add: pow2_def)
    then show ?thesis by (simp add: pow2_add)
  qed
  finally have "x / pow2 e \<le> of_int (2 ^ 53)" using pe by (simp add: pos_divide_le_eq mult.commute)
  from round_half_even_mono_bound[OF xe this] have mb: "0 \<le> m" "m \<le> 2 ^ 53"
    by (simp_all add: m_def)
  have "\<bar>of_int m - x / pow2 e\<bar> \<le> 1 / 2" unfolding m_def by (rule round_half_even_close)
  then have "\<bar>of_int m - x / pow2 e\<bar> * pow2 e \<le> 1 / 2 * pow2 e"
    using pe by (simp add: mult_right_mono)
  moreover have "\<bar>of_int m - x / pow2 e\<bar> * pow2 e = \<bar>of_int m * pow2 e - x\<bar>"
  proof -
    have "of_int m * pow2 e - x = (of_int m - x / pow2 e) * pow2 e"
      using pe by (simp add: field_simps)
    then have "\<bar>of_int m * pow2 e - x\<bar> = \<bar>of_int m - x / pow2 e\<bar> * \<bar>pow2 e\<bar>"
      by (simp only: abs_mult)
    with pe show ?thesis by simp
  qed
  ultimately have close: "\<bar>of_int m * pow2 e - x\<bar> \<le> pow2 e / 2" by simp
  have nn: "0 \<le> of_int m * pow2 e" using mb(1) pe by simp
  from assms(2) have y: "y = (if m = 0 then 0 else if neg then - (of_int m * pow2 e) else of_int m * pow2 e)"
    using assms(1) unfolding round_double_def Let_def e_def[symmetric] m_def[symmetric]
    by (auto split: if_splits)
  have ay: "\<bar>y\<bar> = of_int m * pow2 e" using y nn by (auto simp: abs_if)
  have s1: "y < 0 \<longrightarrow> neg" using y nn by (auto split: if_splits)
  have s2: "0 < y \<longrightarrow> \<not> neg" using y nn by (auto split: if_splits)
  show ?thesis
    using mb ay close s1 s2 unfolding e_def by (intro exI[of _ m]) simp
qed

end
